theory Spec2Isabelle
  imports Complex_Main "HOL-Library.AList"
begin

section \<open>Python floats and their comparisons\<close>

text \<open>
  The four readings are annotated \<^verbatim>\<open>float\<close> in both source files, and the model takes
  them at that type. A Python float is an IEEE-754 double: a finite value, one of the two
  infinities, or NaN. Every finite double is a rational number, and the comparison
  operators on finite doubles are exact, so a finite float is modelled by the rational it
  denotes (the two zeros compare equal and are one value here). Quantifying over all
  rationals covers every double. Every comparison with NaN is false. The tests also pass
  whole numbers as Python ints (\<^verbatim>\<open>32\<close>, \<^verbatim>\<open>7\<close>); such an int compares exactly as the float
  of the same value and is that value here.
\<close>

datatype pyfloat = Finite rat | PosInf | NegInf | NaN

fun py_lt :: "pyfloat \<Rightarrow> pyfloat \<Rightarrow> bool" where
  "py_lt (Finite a) (Finite b) = (a < b)"
| "py_lt (Finite a) PosInf = True"
| "py_lt NegInf (Finite b) = True"
| "py_lt NegInf PosInf = True"
| "py_lt _ _ = False"

fun py_le :: "pyfloat \<Rightarrow> pyfloat \<Rightarrow> bool" where
  "py_le (Finite a) (Finite b) = (a \<le> b)"
| "py_le (Finite a) PosInf = True"
| "py_le NegInf (Finite b) = True"
| "py_le NegInf PosInf = True"
| "py_le PosInf PosInf = True"
| "py_le NegInf NegInf = True"
| "py_le _ _ = False"

definition py_gt :: "pyfloat \<Rightarrow> pyfloat \<Rightarrow> bool" where
  "py_gt a b = py_lt b a"

definition py_ge :: "pyfloat \<Rightarrow> pyfloat \<Rightarrow> bool" where
  "py_ge a b = py_le b a"

text \<open>\<^verbatim>\<open>math.isnan\<close> and \<^verbatim>\<open>math.isinf\<close>.\<close>

fun isnan :: "pyfloat \<Rightarrow> bool" where
  "isnan NaN = True"
| "isnan _ = False"

fun isinf :: "pyfloat \<Rightarrow> bool" where
  "isinf PosInf = True"
| "isinf NegInf = True"
| "isinf _ = False"

text \<open>
  An integer literal of the source (\<^verbatim>\<open>0\<close>, \<^verbatim>\<open>24\<close>, ...) compares with a float by its exact
  value. The decimal literals \<^verbatim>\<open>0.02\<close> and \<^verbatim>\<open>0.05\<close> are not representable: each denotes
  the double nearest to it, which is the value the comparison sees.
  \<^verbatim>\<open>0.02\<close> is \<open>5764607523034235 / 2^58\<close> and \<^verbatim>\<open>0.05\<close> is \<open>3602879701896397 / 2^56\<close>.
\<close>

definition lit_0_02 :: rat where
  "lit_0_02 = 5764607523034235 / 2 ^ 58"

definition lit_0_05 :: rat where
  "lit_0_05 = 3602879701896397 / 2 ^ 56"

text \<open>
  \<open>nearest_double m e q\<close>: the double with 53-bit significand \<open>m\<close> and exponent \<open>- e\<close>
  is within half a unit in the last place of the decimal \<open>q\<close>.
\<close>

definition nearest_double :: "int \<Rightarrow> nat \<Rightarrow> rat \<Rightarrow> bool" where
  "nearest_double m e q =
     (2 ^ 52 \<le> m \<and> m < 2 ^ 53 \<and> \<bar>q * 2 ^ e - of_int m\<bar> < 1 / 2)"

section \<open>The classifier of marine\_health\_testing.py\<close>

datatype error = ValueError string | KeyError string

record risk_result =
  risk :: string
  factors :: "string list"

text \<open>
  The validation loop: the first reading that is NaN or infinite raises. The
  \<^verbatim>\<open>isinstance(val, (int, float))\<close> test is true of every float.
\<close>

fun check_finite :: "(string \<times> pyfloat) list \<Rightarrow> error + unit" where
  "check_finite [] = Inr ()"
| "check_finite ((name, val) # rest) =
     (if isnan val \<or> isinf val
      then Inl (ValueError (name @ '' must be a finite number.''))
      else check_finite rest)"

definition bucket_temp :: "pyfloat \<Rightarrow> string" where
  "bucket_temp t =
     (if py_le (Finite 24) t \<and> py_le t (Finite 28) then ''safe''
      else if (py_le (Finite 22) t \<and> py_lt t (Finite 24))
              \<or> (py_lt (Finite 28) t \<and> py_le t (Finite 30)) then ''moderate''
      else ''high'')"

definition bucket_sal :: "pyfloat \<Rightarrow> string" where
  "bucket_sal s =
     (if py_le (Finite 30) s \<and> py_le s (Finite 35) then ''safe''
      else if (py_le (Finite 28) s \<and> py_lt s (Finite 30))
              \<or> (py_lt (Finite 35) s \<and> py_le s (Finite 37)) then ''moderate''
      else ''high'')"

definition bucket_do :: "pyfloat \<Rightarrow> string" where
  "bucket_do x =
     (if py_ge x (Finite 6) then ''safe''
      else if py_lt x (Finite 4) then ''high''
      else ''moderate'')"

definition bucket_nh3 :: "pyfloat \<Rightarrow> string" where
  "bucket_nh3 a =
     (if py_le a (Finite lit_0_02) then ''safe''
      else if py_gt a (Finite lit_0_05) then ''high''
      else ''moderate'')"

text \<open>
  \<^verbatim>\<open>factors\<close> is a dict with four distinct keys, built in one literal: an association
  list in insertion order, which is the order \<^verbatim>\<open>values()\<close> and \<^verbatim>\<open>items()\<close> iterate in.
\<close>

definition classify_marine_health ::
  "pyfloat \<Rightarrow> pyfloat \<Rightarrow> pyfloat \<Rightarrow> pyfloat \<Rightarrow> error + risk_result" where
  "classify_marine_health temp_c sal_psu do_mgL nh3_mgL =
     (case check_finite [(''temp_c'', temp_c), (''sal_psu'', sal_psu),
                         (''do_mgL'', do_mgL), (''nh3_mgL'', nh3_mgL)] of
        Inl e \<Rightarrow> Inl e
      | Inr u \<Rightarrow>
          if py_le temp_c (Finite 0) \<or> py_le sal_psu (Finite 0)
             \<or> py_le do_mgL (Finite 0) \<or> py_lt nh3_mgL (Finite 0)
          then Inl (ValueError ''Invalid physical ranges.'')
          else
            let fs = [(''temp'', bucket_temp temp_c),
                      (''salinity'', bucket_sal sal_psu),
                      (''dissolved_oxygen'', bucket_do do_mgL),
                      (''ammonia'', bucket_nh3 nh3_mgL)];
                r = (if ''high'' \<in> set (map snd fs) then ''high''
                     else if ''moderate'' \<in> set (map snd fs) then ''medium''
                     else ''low'')
            in Inr \<lparr>risk = r, factors = map fst (filter (\<lambda>(k, v). v \<noteq> ''safe'') fs)\<rparr>)"

section \<open>The classifier of c2\_branch\_tests\_marine\_health.py\<close>

text \<open>
  The branch-test file carries its own copy of the classifier, with its own nested bucket
  functions. It is translated separately, from that file.
\<close>

definition bucket_temp_c2 :: "pyfloat \<Rightarrow> string" where
  "bucket_temp_c2 t =
     (if py_le (Finite 24) t \<and> py_le t (Finite 28) then ''safe''
      else if (py_le (Finite 22) t \<and> py_lt t (Finite 24))
              \<or> (py_lt (Finite 28) t \<and> py_le t (Finite 30)) then ''moderate''
      else ''high'')"

definition bucket_sal_c2 :: "pyfloat \<Rightarrow> string" where
  "bucket_sal_c2 s =
     (if py_le (Finite 30) s \<and> py_le s (Finite 35) then ''safe''
      else if (py_le (Finite 28) s \<and> py_lt s (Finite 30))
              \<or> (py_lt (Finite 35) s \<and> py_le s (Finite 37)) then ''moderate''
      else ''high'')"

definition bucket_do_c2 :: "pyfloat \<Rightarrow> string" where
  "bucket_do_c2 x =
     (if py_ge x (Finite 6) then ''safe''
      else if py_lt x (Finite 4) then ''high''
      else ''moderate'')"

definition bucket_nh3_c2 :: "pyfloat \<Rightarrow> string" where
  "bucket_nh3_c2 a =
     (if py_le a (Finite lit_0_02) then ''safe''
      else if py_gt a (Finite lit_0_05) then ''high''
      else ''moderate'')"

definition classify_marine_health_c2 ::
  "pyfloat \<Rightarrow> pyfloat \<Rightarrow> pyfloat \<Rightarrow> pyfloat \<Rightarrow> error + risk_result" where
  "classify_marine_health_c2 temp_c sal_psu do_mgL nh3_mgL =
     (case check_finite [(''temp_c'', temp_c), (''sal_psu'', sal_psu),
                         (''do_mgL'', do_mgL), (''nh3_mgL'', nh3_mgL)] of
        Inl e \<Rightarrow> Inl e
      | Inr u \<Rightarrow>
          if py_le temp_c (Finite 0) \<or> py_le sal_psu (Finite 0)
             \<or> py_le do_mgL (Finite 0) \<or> py_lt nh3_mgL (Finite 0)
          then Inl (ValueError ''Invalid physical ranges.'')
          else
            let fs = [(''temp'', bucket_temp_c2 temp_c),
                      (''salinity'', bucket_sal_c2 sal_psu),
                      (''dissolved_oxygen'', bucket_do_c2 do_mgL),
                      (''ammonia'', bucket_nh3_c2 nh3_mgL)];
                r = (if ''high'' \<in> set (map snd fs) then ''high''
                     else if ''moderate'' \<in> set (map snd fs) then ''medium''
                     else ''low'')
            in Inr \<lparr>risk = r, factors = map fst (filter (\<lambda>(k, v). v \<noteq> ''safe'') fs)\<rparr>)"

section \<open>The decision evaluator\<close>

definition DECISIONS :: "string list" where
  "DECISIONS =
     [''VAL_temp_gt0'', ''VAL_sal_gt0'', ''VAL_do_gt0'', ''VAL_nh3_ge0'',
      ''T_safe_24_28'', ''T_moderate_22_24_or_28_30'',
      ''S_safe_30_35'', ''S_moderate_28_30_or_35_37'',
      ''DO_safe_ge6'', ''DO_high_lt4'',
      ''NH3_safe_le_0_02'', ''NH3_high_gt_0_05'',
      ''AGG_has_high'', ''AGG_has_moderate'']"

text \<open>
  The dict \<^verbatim>\<open>d\<close> is an association list in insertion order; \<^verbatim>\<open>d[k] = v\<close> is
  \<^const>\<open>AList.update\<close>, which replaces the value of a key already there and appends a new
  key at the end, as a Python dict does.
\<close>

definition eval_decisions ::
  "pyfloat \<Rightarrow> pyfloat \<Rightarrow> pyfloat \<Rightarrow> pyfloat \<Rightarrow> (string \<times> bool) list" where
  "eval_decisions temp_c sal_psu do_mgL nh3_mgL =
     (let d = [];
          d = AList.update ''VAL_temp_gt0'' (py_gt temp_c (Finite 0)) d;
          d = AList.update ''VAL_sal_gt0'' (py_gt sal_psu (Finite 0)) d;
          d = AList.update ''VAL_do_gt0'' (py_gt do_mgL (Finite 0)) d;
          d = AList.update ''VAL_nh3_ge0'' (py_ge nh3_mgL (Finite 0)) d;
          t_safe = (py_le (Finite 24) temp_c \<and> py_le temp_c (Finite 28));
          t_mod = ((py_le (Finite 22) temp_c \<and> py_lt temp_c (Finite 24))
                   \<or> (py_lt (Finite 28) temp_c \<and> py_le temp_c (Finite 30)));
          s_safe = (py_le (Finite 30) sal_psu \<and> py_le sal_psu (Finite 35));
          s_mod = ((py_le (Finite 28) sal_psu \<and> py_lt sal_psu (Finite 30))
                   \<or> (py_lt (Finite 35) sal_psu \<and> py_le sal_psu (Finite 37)));
          do_safe = py_ge do_mgL (Finite 6);
          do_high = py_lt do_mgL (Finite 4);
          nh3_safe = py_le nh3_mgL (Finite lit_0_02);
          nh3_high = py_gt nh3_mgL (Finite lit_0_05);
          d = AList.update ''T_safe_24_28'' t_safe d;
          d = AList.update ''T_moderate_22_24_or_28_30'' t_mod d;
          d = AList.update ''S_safe_30_35'' s_safe d;
          d = AList.update ''S_moderate_28_30_or_35_37'' s_mod d;
          d = AList.update ''DO_safe_ge6'' do_safe d;
          d = AList.update ''DO_high_lt4'' do_high d;
          d = AList.update ''NH3_safe_le_0_02'' nh3_safe d;
          d = AList.update ''NH3_high_gt_0_05'' nh3_high d;
          any_high = ((\<not> t_safe \<and> \<not> t_mod) \<or> (\<not> s_safe \<and> \<not> s_mod) \<or> do_high
                      \<or> (\<not> nh3_safe \<and> nh3_high));
          any_mod = (\<not> any_high \<and>
                     (t_mod \<or> s_mod \<or> (\<not> do_safe \<and> \<not> do_high)
                      \<or> (\<not> nh3_safe \<and> \<not> nh3_high)));
          d = AList.update ''AGG_has_high'' any_high d;
          d = AList.update ''AGG_has_moderate'' any_mod d
      in d)"

text \<open>
  The risk the specification reads off the evaluator's two aggregate decisions: high when
  \<^verbatim>\<open>AGG_has_high\<close> is true, else medium when \<^verbatim>\<open>AGG_has_moderate\<close> is true, else low. No
  function of the source computes it; it is there to compare the evaluator with the
  classifier. A key that is absent makes the lookup fail, as \<^verbatim>\<open>d[k]\<close> would.
\<close>

definition decisions_risk :: "(string \<times> bool) list \<Rightarrow> string option" where
  "decisions_risk d =
     (case (map_of d ''AGG_has_high'', map_of d ''AGG_has_moderate'') of
        (Some h, Some m) \<Rightarrow> Some (if h then ''high'' else if m then ''medium'' else ''low'')
      | _ \<Rightarrow> None)"

section \<open>The test corpus and the coverage run\<close>

text \<open>
  The decimal literals of the corpus, each the double nearest to it: \<^verbatim>\<open>0.005\<close>,
  \<^verbatim>\<open>0.03\<close>, \<^verbatim>\<open>0.06\<close> and \<^verbatim>\<open>0.001\<close>. \<^verbatim>\<open>22.5\<close> and the whole numbers are exact.
\<close>

definition lit_0_005 :: rat where
  "lit_0_005 = 5764607523034235 / 2 ^ 60"

definition lit_0_03 :: rat where
  "lit_0_03 = 8646911284551352 / 2 ^ 58"

definition lit_0_06 :: rat where
  "lit_0_06 = 8646911284551352 / 2 ^ 57"

definition lit_0_001 :: rat where
  "lit_0_001 = 4611686018427388 / 2 ^ 62"

type_synonym reading = "pyfloat \<times> pyfloat \<times> pyfloat \<times> pyfloat"

definition TESTS :: "(string \<times> reading \<times> string) list" where
  "TESTS =
     [(''ALL_SAFE'', (Finite 26, Finite 32, Finite 7, Finite lit_0_005), ''low''),
      (''TEMP_MOD'', (Finite (45 / 2), Finite 32, Finite 7, Finite lit_0_005), ''medium''),
      (''TEMP_HIGH'', (Finite 20, Finite 32, Finite 7, Finite lit_0_005), ''high''),
      (''SAL_MOD'', (Finite 26, Finite 29, Finite 7, Finite lit_0_005), ''medium''),
      (''SAL_HIGH'', (Finite 26, Finite 27, Finite 7, Finite lit_0_005), ''high''),
      (''DO_MOD'', (Finite 26, Finite 32, Finite 5, Finite lit_0_005), ''medium''),
      (''DO_HIGH'', (Finite 26, Finite 32, Finite 3, Finite lit_0_005), ''high''),
      (''NH3_MOD'', (Finite 26, Finite 32, Finite 7, Finite lit_0_03), ''medium''),
      (''NH3_HIGH'', (Finite 26, Finite 32, Finite 7, Finite lit_0_06), ''high'')]"

definition ERROR_TESTS :: "(string \<times> reading) list" where
  "ERROR_TESTS =
     [(''VAL_temp_le0'', (Finite 0, Finite 32, Finite 7, Finite 0)),
      (''VAL_sal_le0'', (Finite 26, Finite 0, Finite 7, Finite 0)),
      (''VAL_do_le0'', (Finite 26, Finite 32, Finite 0, Finite 0)),
      (''VAL_nh3_lt0'', (Finite 26, Finite 32, Finite 7, Finite (- lit_0_001)))]"

type_synonym coverage = "(string \<times> bool set) list"

text \<open>
  \<^verbatim>\<open>for k, v in dec.items(): cov[k].add(bool(v))\<close>: a decision name that is not a key
  of \<^verbatim>\<open>cov\<close> raises \<^verbatim>\<open>KeyError\<close>.
\<close>

fun cov_add :: "coverage \<Rightarrow> (string \<times> bool) list \<Rightarrow> error + coverage" where
  "cov_add cov [] = Inr cov"
| "cov_add cov ((k, v) # rest) =
     (case map_of cov k of
        None \<Rightarrow> Inl (KeyError k)
      | Some tf \<Rightarrow> cov_add (AList.update k (insert v tf) cov) rest)"

text \<open>
  The first loop of \<^verbatim>\<open>main\<close>: an error of the classifier is not caught there and ends
  the run.
\<close>

fun run_tests ::
  "coverage \<Rightarrow> nat \<Rightarrow> (string \<times> reading \<times> string) list \<Rightarrow> error + coverage \<times> nat" where
  "run_tests cov passed [] = Inr (cov, passed)"
| "run_tests cov passed ((name, (t, s, x, a), expected) # rest) =
     (case classify_marine_health_c2 t s x a of
        Inl e \<Rightarrow> Inl e
      | Inr out \<Rightarrow>
          let ok = (risk out = expected);
              passed = passed + (if ok then 1 else 0)
          in (case cov_add cov (eval_decisions t s x a) of
                Inl e \<Rightarrow> Inl e
              | Inr cov' \<Rightarrow> run_tests cov' passed rest))"

text \<open>The second loop: \<^verbatim>\<open>ValueError\<close> is caught and counts as a pass.\<close>

fun run_error_tests ::
  "coverage \<Rightarrow> nat \<Rightarrow> (string \<times> reading) list \<Rightarrow> error + coverage \<times> nat" where
  "run_error_tests cov passed [] = Inr (cov, passed)"
| "run_error_tests cov passed ((name, (t, s, x, a)) # rest) =
     (case (case classify_marine_health_c2 t s x a of
              Inr out \<Rightarrow> Inr False
            | Inl (ValueError m) \<Rightarrow> Inr True
            | Inl (KeyError k) \<Rightarrow> Inl (KeyError k)) of
        Inl e \<Rightarrow> Inl e
      | Inr ok \<Rightarrow>
          let passed = passed + (if ok then 1 else 0)
          in (case cov_add cov (eval_decisions t s x a) of
                Inl e \<Rightarrow> Inl e
              | Inr cov' \<Rightarrow> run_error_tests cov' passed rest))"

text \<open>
  \<^verbatim>\<open>both = [n for n in DECISIONS if True in cov[n] and False in cov[n]]\<close>
\<close>

fun both_seen :: "coverage \<Rightarrow> string list \<Rightarrow> error + string list" where
  "both_seen cov [] = Inr []"
| "both_seen cov (n # ns) =
     (case map_of cov n of
        None \<Rightarrow> Inl (KeyError n)
      | Some tf \<Rightarrow>
          (case both_seen cov ns of
             Inl e \<Rightarrow> Inl e
           | Inr bs \<Rightarrow> Inr (if True \<in> tf \<and> False \<in> tf then n # bs else bs)))"

text \<open>\<^verbatim>\<open>", ".join(missing)\<close>\<close>

fun join_comma :: "string list \<Rightarrow> string" where
  "join_comma [] = []"
| "join_comma [x] = x"
| "join_comma (x # y # ys) = x @ '', '' @ join_comma (y # ys)"

text \<open>
  The table \<^verbatim>\<open>cov\<close> starts with the empty set at every name of \<^verbatim>\<open>DECISIONS\<close>; the
  names are distinct, so the dict comprehension is the list of these pairs.
  What a run of \<^verbatim>\<open>main\<close> leaves: the pass count and the total of the summary line, the
  coverage table, the decisions that did not see both outcomes, and the text of the
  closing result line (after its leading line break). The per-case lines it prints on the
  way are not modelled.
\<close>

record main_result =
  passed :: nat
  total :: nat
  cov :: coverage
  missing :: "string list"
  verdict :: string

definition main :: "error + main_result" where
  "main =
     (case run_tests (map (\<lambda>name. (name, {})) DECISIONS) 0 TESTS of
        Inl e \<Rightarrow> Inl e
      | Inr (cov1, passed1) \<Rightarrow>
          (case run_error_tests cov1 passed1 ERROR_TESTS of
             Inl e \<Rightarrow> Inl e
           | Inr (cov2, passed2) \<Rightarrow>
               (case both_seen cov2 DECISIONS of
                  Inl e \<Rightarrow> Inl e
                | Inr both \<Rightarrow>
                    let miss = filter (\<lambda>n. n \<notin> set both) DECISIONS
                    in Inr \<lparr>passed = passed2,
                            total = length TESTS + length ERROR_TESTS,
                            cov = cov2,
                            missing = miss,
                            verdict =
                              (if miss = []
                               then ''[RESULT] C2 achieved for all tracked decisions.''
                               else ''[RESULT] C2 NOT fully achieved for: ''
                                    @ join_comma miss)\<rparr>)))"

text \<open>
  \<^verbatim>\<open>eval_decisions(**inp)\<close>: the evaluator on the four entries of an input record.
\<close>

definition eval_decisions_of :: "reading \<Rightarrow> (string \<times> bool) list" where
  "eval_decisions_of inp = (case inp of (t, s, x, a) \<Rightarrow> eval_decisions t s x a)"

text \<open>
  The full literal corpus: the inputs of \<^verbatim>\<open>TESTS\<close> followed by those of
  \<^verbatim>\<open>ERROR_TESTS\<close>, in the order \<^verbatim>\<open>main\<close> runs them.
\<close>

definition corpus :: "reading list" where
  "corpus = map (\<lambda>(name, inp, expected). inp) TESTS @ map (\<lambda>(name, inp). inp) ERROR_TESTS"

section \<open>The readings the specification calls valid\<close>

text \<open>
  All four readings finite, temperature, salinity and dissolved oxygen strictly positive,
  ammonia non-negative.
\<close>

definition valid_reading :: "pyfloat \<Rightarrow> pyfloat \<Rightarrow> pyfloat \<Rightarrow> pyfloat \<Rightarrow> bool" where
  "valid_reading temp_c sal_psu do_mgL nh3_mgL =
     (case (temp_c, sal_psu, do_mgL, nh3_mgL) of
        (Finite t, Finite s, Finite x, Finite a) \<Rightarrow> 0 < t \<and> 0 < s \<and> 0 < x \<and> 0 \<le> a
      | _ \<Rightarrow> False)"

section \<open>The threshold table of the specification\<close>

text \<open>
  The table of section 4.1, on the value of a finite reading, written with the intervals
  as the specification tabulates them: temperature safe on \<open>[24, 28]\<close>, moderate on
  \<open>[22, 24) \<union> (28, 30]\<close>; salinity safe on \<open>[30, 35]\<close>, moderate on
  \<open>[28, 30) \<union> (35, 37]\<close>; dissolved oxygen safe from 6, moderate on \<open>[4, 6)\<close>, high
  below 4; ammonia safe up to \<^verbatim>\<open>0.02\<close>, moderate on \<open>(0.02, 0.05]\<close>, high above
  \<^verbatim>\<open>0.05\<close>. The two ammonia thresholds are the doubles those literals denote.
\<close>

datatype band = Safe | Moderate | High

definition table_temp :: "rat \<Rightarrow> band" where
  "table_temp v =
     (if v \<in> {24..28} then Safe
      else if v \<in> {22..<24} \<union> {28<..30} then Moderate
      else High)"

definition table_sal :: "rat \<Rightarrow> band" where
  "table_sal v =
     (if v \<in> {30..35} then Safe
      else if v \<in> {28..<30} \<union> {35<..37} then Moderate
      else High)"

definition table_do :: "rat \<Rightarrow> band" where
  "table_do v =
     (if v \<in> {6..} then Safe
      else if v \<in> {4..<6} then Moderate
      else High)"

definition table_nh3 :: "rat \<Rightarrow> band" where
  "table_nh3 v =
     (if v \<in> {..lit_0_02} then Safe
      else if v \<in> {lit_0_02<..lit_0_05} then Moderate
      else High)"

text \<open>The name a bucket function gives a band, and the risk level a band stands for.\<close>

fun band_name :: "band \<Rightarrow> string" where
  "band_name Safe = ''safe''"
| "band_name Moderate = ''moderate''"
| "band_name High = ''high''"

fun band_risk :: "band \<Rightarrow> string" where
  "band_risk Safe = ''low''"
| "band_risk Moderate = ''medium''"
| "band_risk High = ''high''"

section \<open>Comparisons, literals and validation\<close>

lemma lit_0_02_nearest: "nearest_double 5764607523034235 58 (2 / 100)"
  by (simp add: nearest_double_def)

lemma lit_0_05_nearest: "nearest_double 7205759403792794 57 (5 / 100)"
  by (simp add: nearest_double_def)

lemma lit_order: "lit_0_02 < lit_0_05"
  by (simp add: lit_0_02_def lit_0_05_def)

lemmas literal_defs = lit_0_02_def lit_0_05_def

lemmas bucket_defs = bucket_temp_def bucket_sal_def bucket_do_def bucket_nh3_def

lemmas table_defs = table_temp_def table_sal_def table_do_def table_nh3_def

lemma py_cmp_finite:
  "py_gt (Finite a) (Finite b) = (b < a)"
  "py_ge (Finite a) (Finite b) = (b \<le> a)"
  by (simp_all add: py_gt_def py_ge_def)

lemma valid_reading_finite:
  "valid_reading (Finite t) (Finite s) (Finite x) (Finite a)
   = (0 < t \<and> 0 < s \<and> 0 < x \<and> 0 \<le> a)"
  by (simp add: valid_reading_def)

lemma valid_reading_cases:
  assumes "valid_reading t s x a"
  obtains tv sv xv av where "t = Finite tv" "s = Finite sv" "x = Finite xv" "a = Finite av"
    "0 < tv" "0 < sv" "0 < xv" "0 \<le> av"
  using assms by (auto simp: valid_reading_def split: pyfloat.splits)

lemma not_finite_iff: "(isnan v \<or> isinf v) = (\<forall>r. v \<noteq> Finite r)"
  by (cases v) simp_all

lemma check_finite_four:
  "check_finite [(n1, t), (n2, s), (n3, x), (n4, a)] = Inr ()
   \<longleftrightarrow> (\<exists>tv sv xv av. t = Finite tv \<and> s = Finite sv \<and> x = Finite xv \<and> a = Finite av)"
  by (auto simp: not_finite_iff)

lemma check_finite_error:
  "check_finite ps = Inl e \<Longrightarrow> \<exists>m. e = ValueError m"
  by (induction ps rule: check_finite.induct) (auto split: if_splits)

section \<open>The bucket functions against the table\<close>

lemma bucket_temp_table: "bucket_temp (Finite v) = band_name (table_temp v)"
  by (simp add: bucket_temp_def table_temp_def)

lemma bucket_sal_table: "bucket_sal (Finite v) = band_name (table_sal v)"
  by (simp add: bucket_sal_def table_sal_def)

lemma bucket_do_table: "bucket_do (Finite v) = band_name (table_do v)"
  by (auto simp add: bucket_do_def table_do_def py_cmp_finite)

lemma bucket_nh3_table: "bucket_nh3 (Finite v) = band_name (table_nh3 v)"
  using lit_order by (auto simp add: bucket_nh3_def table_nh3_def py_cmp_finite)

text \<open>
  C1. On a valid input every reading's bucket is the band the table of section 4.1 gives
  its value, with the boundaries closed and half-open as tabulated: temperature safe on
  \<open>[24, 28]\<close>, moderate on \<open>[22, 24) \<union> (28, 30]\<close>, high otherwise; salinity safe on
  \<open>[30, 35]\<close>, moderate on \<open>[28, 30) \<union> (35, 37]\<close>, high otherwise; dissolved oxygen safe
  from 6, moderate on \<open>[4, 6)\<close>, high below 4; ammonia safe up to \<^verbatim>\<open>0.02\<close>, moderate on
  \<open>(0.02, 0.05]\<close>, high above \<^verbatim>\<open>0.05\<close>.
\<close>

theorem bucket_table:
  assumes "valid_reading (Finite t) (Finite s) (Finite x) (Finite a)"
  shows "bucket_temp (Finite t) = band_name (table_temp t)
       \<and> bucket_sal (Finite s) = band_name (table_sal s)
       \<and> bucket_do (Finite x) = band_name (table_do x)
       \<and> bucket_nh3 (Finite a) = band_name (table_nh3 a)"
  by (simp only: bucket_temp_table bucket_sal_table bucket_do_table bucket_nh3_table)

text \<open>
  At the edges: 24 degrees and 35 PSU are safe, dissolved oxygen of exactly 4 is moderate,
  and ammonia of exactly \<^verbatim>\<open>0.02\<close> is safe.
\<close>

theorem bucket_table_witness:
  "valid_reading (Finite 24) (Finite 35) (Finite 4) (Finite lit_0_02)
   \<and> bucket_temp (Finite 24) = ''safe''
   \<and> bucket_sal (Finite 35) = ''safe''
   \<and> bucket_do (Finite 4) = ''moderate''
   \<and> bucket_nh3 (Finite lit_0_02) = ''safe''"
  using bucket_table [of 24 35 4 lit_0_02]
  by (simp add: valid_reading_finite table_defs lit_0_02_def)

section \<open>The classifier on valid and on invalid readings\<close>

lemma classify_valid:
  assumes "valid_reading t s x a"
  shows "classify_marine_health t s x a =
     Inr \<lparr>risk = (if ''high'' \<in> {bucket_temp t, bucket_sal s, bucket_do x, bucket_nh3 a}
                  then ''high''
                  else if ''moderate'' \<in> {bucket_temp t, bucket_sal s, bucket_do x, bucket_nh3 a}
                  then ''medium'' else ''low''),
          factors = (if bucket_temp t \<noteq> ''safe'' then [''temp''] else [])
                  @ (if bucket_sal s \<noteq> ''safe'' then [''salinity''] else [])
                  @ (if bucket_do x \<noteq> ''safe'' then [''dissolved_oxygen''] else [])
                  @ (if bucket_nh3 a \<noteq> ''safe'' then [''ammonia''] else [])\<rparr>"
  using assms
  by (elim valid_reading_cases) (simp add: classify_marine_health_def Let_def)

lemma classify_invalid:
  assumes "\<not> valid_reading t s x a"
  shows "\<exists>m. classify_marine_health t s x a = Inl (ValueError m)"
proof (cases "check_finite [(''temp_c'', t), (''sal_psu'', s), (''do_mgL'', x), (''nh3_mgL'', a)]")
  case (Inl e)
  then show ?thesis
    using check_finite_error [OF Inl] by (auto simp: classify_marine_health_def)
next
  case (Inr u)
  then obtain tv sv xv av where "t = Finite tv" "s = Finite sv" "x = Finite xv" "a = Finite av"
    using check_finite_four [of "''temp_c''" t "''sal_psu''" s "''do_mgL''" x "''nh3_mgL''" a]
    by auto
  with assms Inr show ?thesis
    by (auto simp: classify_marine_health_def valid_reading_finite not_less not_le)
qed

lemma bucket_c2_eq:
  "bucket_temp_c2 = bucket_temp" "bucket_sal_c2 = bucket_sal"
  "bucket_do_c2 = bucket_do" "bucket_nh3_c2 = bucket_nh3"
  by (simp_all add: fun_eq_iff bucket_temp_c2_def bucket_sal_c2_def bucket_do_c2_def
      bucket_nh3_c2_def bucket_defs)

lemma classify_c2_eq:
  "classify_marine_health_c2 t s x a = classify_marine_health t s x a"
  by (simp only: classify_marine_health_c2_def classify_marine_health_def bucket_c2_eq)

text \<open>
  C2. On a valid input the classifier returns a result whose risk is high when at least
  one of the four buckets is high, otherwise medium when at least one is moderate,
  otherwise low; the risk is always one of the three levels.
\<close>

theorem risk_aggregation:
  assumes "valid_reading t s x a"
  shows "\<exists>r. classify_marine_health t s x a = Inr r
       \<and> risk r = (if bucket_temp t = ''high'' \<or> bucket_sal s = ''high''
                      \<or> bucket_do x = ''high'' \<or> bucket_nh3 a = ''high'' then ''high''
                   else if bucket_temp t = ''moderate'' \<or> bucket_sal s = ''moderate''
                      \<or> bucket_do x = ''moderate'' \<or> bucket_nh3 a = ''moderate''
                   then ''medium''
                   else ''low'')
       \<and> risk r \<in> {''low'', ''medium'', ''high''}"
  by (simp only: classify_valid [OF assms]) auto

text \<open>
  The dominance case of the boundary tests, \<^verbatim>\<open>(23.0, 29.0, 3.9, 0.04)\<close>: three moderate
  readings and dissolved oxygen high give high.
\<close>

theorem risk_aggregation_witness:
  "\<exists>r. classify_marine_health (Finite 23) (Finite 29) (Finite (8782019273372467 / 2 ^ 51))
          (Finite (5764607523034235 / 2 ^ 57)) = Inr r
       \<and> risk r = ''high''"
  using risk_aggregation [of "Finite 23" "Finite 29" "Finite (8782019273372467 / 2 ^ 51)"
      "Finite (5764607523034235 / 2 ^ 57)"]
  by (auto simp add: valid_reading_finite bucket_defs py_cmp_finite literal_defs)

text \<open>
  C3. Both copies of the classifier raise \<^verbatim>\<open>ValueError\<close> exactly on the readings that are
  not valid (some reading NaN or infinite, or temperature, salinity or dissolved oxygen
  not above zero, or ammonia below zero), and return a result, with no error, on every
  valid one. A failing call returns the error alone.
\<close>

theorem classify_validation:
  "(if valid_reading t s x a
    then (\<exists>r. classify_marine_health t s x a = Inr r)
       \<and> (\<exists>r. classify_marine_health_c2 t s x a = Inr r)
    else (\<exists>m. classify_marine_health t s x a = Inl (ValueError m))
       \<and> (\<exists>m. classify_marine_health_c2 t s x a = Inl (ValueError m)))"
  using classify_valid [of t s x a] classify_invalid [of t s x a]
  by (auto simp: classify_c2_eq)

theorem classify_validation_witness:
  "\<not> valid_reading NaN (Finite 32) (Finite 7) (Finite 0)
   \<and> (\<exists>m. classify_marine_health NaN (Finite 32) (Finite 7) (Finite 0) = Inl (ValueError m))
   \<and> valid_reading (Finite 26) (Finite 32) (Finite 7) (Finite 0)
   \<and> (\<exists>r. classify_marine_health (Finite 26) (Finite 32) (Finite 7) (Finite 0) = Inr r)"
  using classify_validation [of NaN "Finite 32" "Finite 7" "Finite 0"]
    classify_validation [of "Finite 26" "Finite 32" "Finite 7" "Finite 0"]
  by (simp add: valid_reading_def)

text \<open>
  C5. On a valid input the factors list holds exactly the names of the readings whose
  bucket is not safe, in the order temp, salinity, dissolved\_oxygen, ammonia, each at
  most once and nothing else.
\<close>

theorem factors_order:
  assumes "valid_reading t s x a"
  shows "\<exists>r. classify_marine_health t s x a = Inr r
       \<and> factors r = (if bucket_temp t \<noteq> ''safe'' then [''temp''] else [])
                   @ (if bucket_sal s \<noteq> ''safe'' then [''salinity''] else [])
                   @ (if bucket_do x \<noteq> ''safe'' then [''dissolved_oxygen''] else [])
                   @ (if bucket_nh3 a \<noteq> ''safe'' then [''ammonia''] else [])
       \<and> distinct (factors r)
       \<and> set (factors r) \<subseteq> {''temp'', ''salinity'', ''dissolved_oxygen'', ''ammonia''}"
  by (simp only: classify_valid [OF assms]) auto

text \<open>The multiple-moderates row of the decision table, \<^verbatim>\<open>(23.5, 36.0, 5.5, 0.01)\<close>.\<close>

theorem factors_order_witness:
  "\<exists>r. classify_marine_health (Finite (47 / 2)) (Finite 36) (Finite (11 / 2))
          (Finite (5764607523034235 / 2 ^ 59)) = Inr r
       \<and> factors r = [''temp'', ''salinity'', ''dissolved_oxygen'']"
  using factors_order [of "Finite (47 / 2)" "Finite 36" "Finite (11 / 2)"
      "Finite (5764607523034235 / 2 ^ 59)"]
  by (auto simp add: valid_reading_finite bucket_defs py_cmp_finite literal_defs)

lemma classify_finite_risk:
  assumes "valid_reading (Finite t) (Finite s) (Finite x) (Finite a)"
  shows "\<exists>r. classify_marine_health (Finite t) (Finite s) (Finite x) (Finite a) = Inr r
       \<and> risk r = (if High \<in> {table_temp t, table_sal s, table_do x, table_nh3 a} then ''high''
                   else if Moderate \<in> {table_temp t, table_sal s, table_do x, table_nh3 a}
                   then ''medium'' else ''low'')"
  unfolding classify_valid [OF assms] bucket_temp_table bucket_sal_table bucket_do_table
    bucket_nh3_table
  by (cases "table_temp t"; cases "table_sal s"; cases "table_do x"; cases "table_nh3 a") simp_all

text \<open>
  C6. With three readings held anywhere in their safe bands (the centre values 26, 32, 7
  and 0.0 among them), the risk follows the band of the remaining reading: low for every
  value in its safe band, medium for every value in its moderate band, high for every
  valid value in its high band. This holds for each of the four readings in turn.
\<close>

theorem monotone_bands:
  assumes "valid_reading (Finite t) (Finite s) (Finite x) (Finite a)"
  shows "\<exists>r. classify_marine_health (Finite t) (Finite s) (Finite x) (Finite a) = Inr r
       \<and> (table_sal s = Safe \<and> table_do x = Safe \<and> table_nh3 a = Safe
            \<longrightarrow> risk r = band_risk (table_temp t))
       \<and> (table_temp t = Safe \<and> table_do x = Safe \<and> table_nh3 a = Safe
            \<longrightarrow> risk r = band_risk (table_sal s))
       \<and> (table_temp t = Safe \<and> table_sal s = Safe \<and> table_nh3 a = Safe
            \<longrightarrow> risk r = band_risk (table_do x))
       \<and> (table_temp t = Safe \<and> table_sal s = Safe \<and> table_do x = Safe
            \<longrightarrow> risk r = band_risk (table_nh3 a))"
proof -
  obtain r where r: "classify_marine_health (Finite t) (Finite s) (Finite x) (Finite a) = Inr r"
    and k: "risk r = (if High \<in> {table_temp t, table_sal s, table_do x, table_nh3 a}
                      then ''high''
                      else if Moderate \<in> {table_temp t, table_sal s, table_do x, table_nh3 a}
                      then ''medium'' else ''low'')"
    using classify_finite_risk [OF assms] by blast
  have "table_sal s = Safe \<and> table_do x = Safe \<and> table_nh3 a = Safe
            \<longrightarrow> risk r = band_risk (table_temp t)"
    using k by (cases "table_temp t") simp_all
  moreover have "table_temp t = Safe \<and> table_do x = Safe \<and> table_nh3 a = Safe
            \<longrightarrow> risk r = band_risk (table_sal s)"
    using k by (cases "table_sal s") simp_all
  moreover have "table_temp t = Safe \<and> table_sal s = Safe \<and> table_nh3 a = Safe
            \<longrightarrow> risk r = band_risk (table_do x)"
    using k by (cases "table_do x") simp_all
  moreover have "table_temp t = Safe \<and> table_sal s = Safe \<and> table_do x = Safe
            \<longrightarrow> risk r = band_risk (table_nh3 a)"
    using k by (cases "table_nh3 a") simp_all
  ultimately show ?thesis using r by blast
qed

text \<open>
  At the centre values of the boundary tests, with the temperature moved into its
  moderate band (22.5), then into its high band (20), then back to the centre.
\<close>

theorem monotone_bands_witness:
  "(\<exists>r. classify_marine_health (Finite (45 / 2)) (Finite 32) (Finite 7) (Finite 0) = Inr r
        \<and> risk r = ''medium'')
   \<and> (\<exists>r. classify_marine_health (Finite 20) (Finite 32) (Finite 7) (Finite 0) = Inr r
        \<and> risk r = ''high'')
   \<and> (\<exists>r. classify_marine_health (Finite 26) (Finite 32) (Finite 7) (Finite 0) = Inr r
        \<and> risk r = ''low'')"
  using monotone_bands [of "45 / 2" 32 7 0] monotone_bands [of 20 32 7 0]
    monotone_bands [of 26 32 7 0]
  by (auto simp add: valid_reading_finite table_defs literal_defs)

section \<open>The decision evaluator against the classifier\<close>

lemma eval_decisions_alist:
  "eval_decisions t s x a =
     [(''VAL_temp_gt0'', py_gt t (Finite 0)),
      (''VAL_sal_gt0'', py_gt s (Finite 0)),
      (''VAL_do_gt0'', py_gt x (Finite 0)),
      (''VAL_nh3_ge0'', py_ge a (Finite 0)),
      (''T_safe_24_28'', py_le (Finite 24) t \<and> py_le t (Finite 28)),
      (''T_moderate_22_24_or_28_30'',
         (py_le (Finite 22) t \<and> py_lt t (Finite 24)) \<or> (py_lt (Finite 28) t \<and> py_le t (Finite 30))),
      (''S_safe_30_35'', py_le (Finite 30) s \<and> py_le s (Finite 35)),
      (''S_moderate_28_30_or_35_37'',
         (py_le (Finite 28) s \<and> py_lt s (Finite 30)) \<or> (py_lt (Finite 35) s \<and> py_le s (Finite 37))),
      (''DO_safe_ge6'', py_ge x (Finite 6)),
      (''DO_high_lt4'', py_lt x (Finite 4)),
      (''NH3_safe_le_0_02'', py_le a (Finite lit_0_02)),
      (''NH3_high_gt_0_05'', py_gt a (Finite lit_0_05)),
      (''AGG_has_high'',
         (\<not> (py_le (Finite 24) t \<and> py_le t (Finite 28))
          \<and> \<not> ((py_le (Finite 22) t \<and> py_lt t (Finite 24)) \<or> (py_lt (Finite 28) t \<and> py_le t (Finite 30))))
         \<or> (\<not> (py_le (Finite 30) s \<and> py_le s (Finite 35))
          \<and> \<not> ((py_le (Finite 28) s \<and> py_lt s (Finite 30)) \<or> (py_lt (Finite 35) s \<and> py_le s (Finite 37))))
         \<or> py_lt x (Finite 4)
         \<or> (\<not> py_le a (Finite lit_0_02) \<and> py_gt a (Finite lit_0_05))),
      (''AGG_has_moderate'',
         \<not> ((\<not> (py_le (Finite 24) t \<and> py_le t (Finite 28))
          \<and> \<not> ((py_le (Finite 22) t \<and> py_lt t (Finite 24)) \<or> (py_lt (Finite 28) t \<and> py_le t (Finite 30))))
         \<or> (\<not> (py_le (Finite 30) s \<and> py_le s (Finite 35))
          \<and> \<not> ((py_le (Finite 28) s \<and> py_lt s (Finite 30)) \<or> (py_lt (Finite 35) s \<and> py_le s (Finite 37))))
         \<or> py_lt x (Finite 4)
         \<or> (\<not> py_le a (Finite lit_0_02) \<and> py_gt a (Finite lit_0_05)))
         \<and> (((py_le (Finite 22) t \<and> py_lt t (Finite 24)) \<or> (py_lt (Finite 28) t \<and> py_le t (Finite 30)))
            \<or> ((py_le (Finite 28) s \<and> py_lt s (Finite 30)) \<or> (py_lt (Finite 35) s \<and> py_le s (Finite 37)))
            \<or> (\<not> py_ge x (Finite 6) \<and> \<not> py_lt x (Finite 4))
            \<or> (\<not> py_le a (Finite lit_0_02) \<and> \<not> py_gt a (Finite lit_0_05))))]"
  unfolding eval_decisions_def Let_def by (simp del: de_Morgan_conj de_Morgan_disj not_not)

lemma eval_decisions_keys: "map fst (eval_decisions t s x a) = DECISIONS"
  by (simp only: eval_decisions_alist DECISIONS_def list.map fst_conv)

lemma temp_safe_bucket:
  "(py_le (Finite 24) t \<and> py_le t (Finite 28)) = (bucket_temp t = ''safe'')"
  by (simp add: bucket_temp_def)

lemma temp_mod_bucket:
  "((py_le (Finite 22) t \<and> py_lt t (Finite 24)) \<or> (py_lt (Finite 28) t \<and> py_le t (Finite 30)))
   = (bucket_temp t = ''moderate'')"
  by (cases t) (auto simp: bucket_temp_def)

lemma sal_safe_bucket:
  "(py_le (Finite 30) s \<and> py_le s (Finite 35)) = (bucket_sal s = ''safe'')"
  by (simp add: bucket_sal_def)

lemma sal_mod_bucket:
  "((py_le (Finite 28) s \<and> py_lt s (Finite 30)) \<or> (py_lt (Finite 35) s \<and> py_le s (Finite 37)))
   = (bucket_sal s = ''moderate'')"
  by (cases s) (auto simp: bucket_sal_def)

lemma do_safe_bucket: "py_ge x (Finite 6) = (bucket_do x = ''safe'')"
  by (simp add: bucket_do_def)

lemma do_high_bucket: "py_lt x (Finite 4) = (bucket_do x = ''high'')"
  by (cases x) (auto simp: bucket_do_def py_ge_def)

lemma nh3_safe_bucket: "py_le a (Finite lit_0_02) = (bucket_nh3 a = ''safe'')"
  by (simp add: bucket_nh3_def)

lemma nh3_high_bucket: "py_gt a (Finite lit_0_05) = (bucket_nh3 a = ''high'')"
  using lit_order by (cases a) (auto simp: bucket_nh3_def py_gt_def)

lemma bucket_range:
  "bucket_temp t \<in> {''safe'', ''moderate'', ''high''}"
  "bucket_sal s \<in> {''safe'', ''moderate'', ''high''}"
  "bucket_do x \<in> {''safe'', ''moderate'', ''high''}"
  "bucket_nh3 a \<in> {''safe'', ''moderate'', ''high''}"
  by (simp_all add: bucket_defs)

lemma not_safe_not_mod:
  "b \<in> {''safe'', ''moderate'', ''high''}
   \<Longrightarrow> (b \<noteq> ''safe'' \<and> b \<noteq> ''moderate'') = (b = ''high'')"
  "b \<in> {''safe'', ''moderate'', ''high''}
   \<Longrightarrow> (b \<noteq> ''safe'' \<and> b \<noteq> ''high'') = (b = ''moderate'')"
  "b \<in> {''safe'', ''moderate'', ''high''}
   \<Longrightarrow> (b \<noteq> ''safe'' \<and> b = ''high'') = (b = ''high'')"
  by auto

lemma eval_decisions_buckets:
  "eval_decisions t s x a =
     [(''VAL_temp_gt0'', py_gt t (Finite 0)),
      (''VAL_sal_gt0'', py_gt s (Finite 0)),
      (''VAL_do_gt0'', py_gt x (Finite 0)),
      (''VAL_nh3_ge0'', py_ge a (Finite 0)),
      (''T_safe_24_28'', bucket_temp t = ''safe''),
      (''T_moderate_22_24_or_28_30'', bucket_temp t = ''moderate''),
      (''S_safe_30_35'', bucket_sal s = ''safe''),
      (''S_moderate_28_30_or_35_37'', bucket_sal s = ''moderate''),
      (''DO_safe_ge6'', bucket_do x = ''safe''),
      (''DO_high_lt4'', bucket_do x = ''high''),
      (''NH3_safe_le_0_02'', bucket_nh3 a = ''safe''),
      (''NH3_high_gt_0_05'', bucket_nh3 a = ''high''),
      (''AGG_has_high'',
         bucket_temp t = ''high'' \<or> bucket_sal s = ''high''
         \<or> bucket_do x = ''high'' \<or> bucket_nh3 a = ''high''),
      (''AGG_has_moderate'',
         \<not> (bucket_temp t = ''high'' \<or> bucket_sal s = ''high''
            \<or> bucket_do x = ''high'' \<or> bucket_nh3 a = ''high'')
         \<and> (bucket_temp t = ''moderate'' \<or> bucket_sal s = ''moderate''
            \<or> bucket_do x = ''moderate'' \<or> bucket_nh3 a = ''moderate''))]"
  by (simp only: eval_decisions_alist temp_safe_bucket temp_mod_bucket sal_safe_bucket
      sal_mod_bucket do_safe_bucket do_high_bucket nh3_safe_bucket nh3_high_bucket
      not_safe_not_mod [OF bucket_range(1)] not_safe_not_mod [OF bucket_range(2)]
      not_safe_not_mod [OF bucket_range(3)] not_safe_not_mod [OF bucket_range(4)])

lemma decisions_risk_eval:
  "decisions_risk (eval_decisions t s x a) =
     Some (if bucket_temp t = ''high'' \<or> bucket_sal s = ''high''
              \<or> bucket_do x = ''high'' \<or> bucket_nh3 a = ''high'' then ''high''
           else if bucket_temp t = ''moderate'' \<or> bucket_sal s = ''moderate''
              \<or> bucket_do x = ''moderate'' \<or> bucket_nh3 a = ''moderate'' then ''medium''
           else ''low'')"
  unfolding eval_decisions_buckets decisions_risk_def by simp

text \<open>
  C4. On a valid input the risk read off the evaluator's two aggregate decisions (high
  when \<^verbatim>\<open>AGG_has_high\<close> is true, else medium when \<^verbatim>\<open>AGG_has_moderate\<close> is true, else
  low) is the risk the classifier of the same file returns on the same four readings.
\<close>

theorem evaluator_agrees:
  assumes "valid_reading t s x a"
  shows "\<exists>r. classify_marine_health_c2 t s x a = Inr r
       \<and> decisions_risk (eval_decisions t s x a) = Some (risk r)"
  unfolding classify_c2_eq classify_valid [OF assms] decisions_risk_eval by auto

text \<open>
  The dominance case \<^verbatim>\<open>(23.0, 29.0, 3.9, 0.04)\<close>: both say high.
\<close>

theorem evaluator_agrees_witness:
  "(\<exists>r. classify_marine_health_c2 (Finite 23) (Finite 29) (Finite (8782019273372467 / 2 ^ 51))
          (Finite (5764607523034235 / 2 ^ 57)) = Inr r
        \<and> risk r = ''high'')
   \<and> decisions_risk (eval_decisions (Finite 23) (Finite 29)
        (Finite (8782019273372467 / 2 ^ 51)) (Finite (5764607523034235 / 2 ^ 57)))
       = Some ''high''"
  using evaluator_agrees [of "Finite 23" "Finite 29" "Finite (8782019273372467 / 2 ^ 51)"
      "Finite (5764607523034235 / 2 ^ 57)"]
  by (auto simp add: valid_reading_finite decisions_risk_eval bucket_defs py_cmp_finite
      literal_defs)

lemma py_cmp_cases:
  "py_gt f (Finite c) = (case f of Finite v \<Rightarrow> c < v | PosInf \<Rightarrow> True | _ \<Rightarrow> False)"
  "py_ge f (Finite c) = (case f of Finite v \<Rightarrow> c \<le> v | PosInf \<Rightarrow> True | _ \<Rightarrow> False)"
  "py_lt f (Finite c) = (case f of Finite v \<Rightarrow> v < c | NegInf \<Rightarrow> True | _ \<Rightarrow> False)"
  "py_le f (Finite c) = (case f of Finite v \<Rightarrow> v \<le> c | NegInf \<Rightarrow> True | _ \<Rightarrow> False)"
  by (cases f; simp add: py_gt_def py_ge_def)+

lemma bucket_temp_cases:
  "(bucket_temp t = ''safe'') = (case t of Finite v \<Rightarrow> table_temp v = Safe | _ \<Rightarrow> False)"
  "(bucket_temp t = ''moderate'') = (case t of Finite v \<Rightarrow> table_temp v = Moderate | _ \<Rightarrow> False)"
  by (cases t; simp add: bucket_temp_def table_temp_def)+

lemma bucket_sal_cases:
  "(bucket_sal s = ''safe'') = (case s of Finite v \<Rightarrow> table_sal v = Safe | _ \<Rightarrow> False)"
  "(bucket_sal s = ''moderate'') = (case s of Finite v \<Rightarrow> table_sal v = Moderate | _ \<Rightarrow> False)"
  by (cases s; simp add: bucket_sal_def table_sal_def)+

lemma bucket_do_cases:
  "(bucket_do x = ''safe'')
   = (case x of Finite v \<Rightarrow> table_do v = Safe | PosInf \<Rightarrow> True | _ \<Rightarrow> False)"
  "(bucket_do x = ''high'')
   = (case x of Finite v \<Rightarrow> table_do v = High | NegInf \<Rightarrow> True | _ \<Rightarrow> False)"
  by (cases x; simp add: bucket_do_def table_do_def py_ge_def)+

lemma bucket_nh3_cases:
  "(bucket_nh3 a = ''safe'')
   = (case a of Finite v \<Rightarrow> table_nh3 v = Safe | NegInf \<Rightarrow> True | _ \<Rightarrow> False)"
  "(bucket_nh3 a = ''high'')
   = (case a of Finite v \<Rightarrow> table_nh3 v = High | PosInf \<Rightarrow> True | _ \<Rightarrow> False)"
  using lit_order by (cases a; auto simp add: bucket_nh3_def table_nh3_def py_gt_def)+

lemma eval_decisions_at:
  "map_of (eval_decisions t s x a) ''VAL_temp_gt0'' = Some (py_gt t (Finite 0))"
  "map_of (eval_decisions t s x a) ''VAL_sal_gt0'' = Some (py_gt s (Finite 0))"
  "map_of (eval_decisions t s x a) ''VAL_do_gt0'' = Some (py_gt x (Finite 0))"
  "map_of (eval_decisions t s x a) ''VAL_nh3_ge0'' = Some (py_ge a (Finite 0))"
  "map_of (eval_decisions t s x a) ''T_safe_24_28'' = Some (bucket_temp t = ''safe'')"
  "map_of (eval_decisions t s x a) ''T_moderate_22_24_or_28_30''
   = Some (bucket_temp t = ''moderate'')"
  "map_of (eval_decisions t s x a) ''S_safe_30_35'' = Some (bucket_sal s = ''safe'')"
  "map_of (eval_decisions t s x a) ''S_moderate_28_30_or_35_37''
   = Some (bucket_sal s = ''moderate'')"
  "map_of (eval_decisions t s x a) ''DO_safe_ge6'' = Some (bucket_do x = ''safe'')"
  "map_of (eval_decisions t s x a) ''DO_high_lt4'' = Some (bucket_do x = ''high'')"
  "map_of (eval_decisions t s x a) ''NH3_safe_le_0_02'' = Some (bucket_nh3 a = ''safe'')"
  "map_of (eval_decisions t s x a) ''NH3_high_gt_0_05'' = Some (bucket_nh3 a = ''high'')"
  "map_of (eval_decisions t s x a) ''AGG_has_high''
   = Some (bucket_temp t = ''high'' \<or> bucket_sal s = ''high''
           \<or> bucket_do x = ''high'' \<or> bucket_nh3 a = ''high'')"
  "map_of (eval_decisions t s x a) ''AGG_has_moderate''
   = Some (\<not> (bucket_temp t = ''high'' \<or> bucket_sal s = ''high''
               \<or> bucket_do x = ''high'' \<or> bucket_nh3 a = ''high'')
           \<and> (bucket_temp t = ''moderate'' \<or> bucket_sal s = ''moderate''
               \<or> bucket_do x = ''moderate'' \<or> bucket_nh3 a = ''moderate''))"
  unfolding eval_decisions_buckets by simp_all

text \<open>
  C8. On every input, finite or not, the evaluator returns exactly the 14 decisions, in
  the order of \<^verbatim>\<open>DECISIONS\<close>, and each has its meaning. A validation key is true when
  the reading is above zero (for ammonia, at least zero); a comparison with an infinity
  follows its sign and a comparison with NaN is false. A bucket key is true when the band
  of section 4.1 holds of the reading: safe and moderate for temperature and salinity,
  safe (at least 6) and high (below 4) for dissolved oxygen, safe (at most \<^verbatim>\<open>0.02\<close>) and
  high (above \<^verbatim>\<open>0.05\<close>) for ammonia. \<^verbatim>\<open>AGG_has_high\<close> is true when some bucket of the
  classifier is high, and \<^verbatim>\<open>AGG_has_moderate\<close> when none is high and some is moderate.
\<close>

theorem decisions_meaning:
  "map fst (eval_decisions t s x a) = DECISIONS
   \<and> map_of (eval_decisions t s x a) ''VAL_temp_gt0''
       = Some (case t of Finite v \<Rightarrow> 0 < v | PosInf \<Rightarrow> True | _ \<Rightarrow> False)
   \<and> map_of (eval_decisions t s x a) ''VAL_sal_gt0''
       = Some (case s of Finite v \<Rightarrow> 0 < v | PosInf \<Rightarrow> True | _ \<Rightarrow> False)
   \<and> map_of (eval_decisions t s x a) ''VAL_do_gt0''
       = Some (case x of Finite v \<Rightarrow> 0 < v | PosInf \<Rightarrow> True | _ \<Rightarrow> False)
   \<and> map_of (eval_decisions t s x a) ''VAL_nh3_ge0''
       = Some (case a of Finite v \<Rightarrow> 0 \<le> v | PosInf \<Rightarrow> True | _ \<Rightarrow> False)
   \<and> map_of (eval_decisions t s x a) ''T_safe_24_28''
       = Some (case t of Finite v \<Rightarrow> table_temp v = Safe | _ \<Rightarrow> False)
   \<and> map_of (eval_decisions t s x a) ''T_moderate_22_24_or_28_30''
       = Some (case t of Finite v \<Rightarrow> table_temp v = Moderate | _ \<Rightarrow> False)
   \<and> map_of (eval_decisions t s x a) ''S_safe_30_35''
       = Some (case s of Finite v \<Rightarrow> table_sal v = Safe | _ \<Rightarrow> False)
   \<and> map_of (eval_decisions t s x a) ''S_moderate_28_30_or_35_37''
       = Some (case s of Finite v \<Rightarrow> table_sal v = Moderate | _ \<Rightarrow> False)
   \<and> map_of (eval_decisions t s x a) ''DO_safe_ge6''
       = Some (case x of Finite v \<Rightarrow> table_do v = Safe | PosInf \<Rightarrow> True | _ \<Rightarrow> False)
   \<and> map_of (eval_decisions t s x a) ''DO_high_lt4''
       = Some (case x of Finite v \<Rightarrow> table_do v = High | NegInf \<Rightarrow> True | _ \<Rightarrow> False)
   \<and> map_of (eval_decisions t s x a) ''NH3_safe_le_0_02''
       = Some (case a of Finite v \<Rightarrow> table_nh3 v = Safe | NegInf \<Rightarrow> True | _ \<Rightarrow> False)
   \<and> map_of (eval_decisions t s x a) ''NH3_high_gt_0_05''
       = Some (case a of Finite v \<Rightarrow> table_nh3 v = High | PosInf \<Rightarrow> True | _ \<Rightarrow> False)
   \<and> map_of (eval_decisions t s x a) ''AGG_has_high''
       = Some (bucket_temp_c2 t = ''high'' \<or> bucket_sal_c2 s = ''high''
               \<or> bucket_do_c2 x = ''high'' \<or> bucket_nh3_c2 a = ''high'')
   \<and> map_of (eval_decisions t s x a) ''AGG_has_moderate''
       = Some (\<not> (bucket_temp_c2 t = ''high'' \<or> bucket_sal_c2 s = ''high''
                   \<or> bucket_do_c2 x = ''high'' \<or> bucket_nh3_c2 a = ''high'')
               \<and> (bucket_temp_c2 t = ''moderate'' \<or> bucket_sal_c2 s = ''moderate''
                   \<or> bucket_do_c2 x = ''moderate'' \<or> bucket_nh3_c2 a = ''moderate''))"
  unfolding bucket_c2_eq
  by (simp only: eval_decisions_keys eval_decisions_at(1-4,13,14) py_cmp_cases
      eval_decisions_at(5-12) [unfolded bucket_temp_cases bucket_sal_cases bucket_do_cases
        bucket_nh3_cases] simp_thms)

text \<open>
  A reading with a safe temperature, a moderate salinity, infinite dissolved oxygen and
  NaN ammonia.
\<close>

theorem decisions_meaning_witness:
  "map_of (eval_decisions (Finite 26) (Finite 29) PosInf NaN) ''VAL_temp_gt0'' = Some True
   \<and> map_of (eval_decisions (Finite 26) (Finite 29) PosInf NaN) ''S_safe_30_35'' = Some False
   \<and> map_of (eval_decisions (Finite 26) (Finite 29) PosInf NaN) ''S_moderate_28_30_or_35_37''
       = Some True
   \<and> map_of (eval_decisions (Finite 26) (Finite 29) PosInf NaN) ''DO_safe_ge6'' = Some True
   \<and> map_of (eval_decisions (Finite 26) (Finite 29) PosInf NaN) ''NH3_safe_le_0_02''
       = Some False
   \<and> map_of (eval_decisions (Finite 26) (Finite 29) PosInf NaN) ''AGG_has_high'' = Some False
   \<and> map_of (eval_decisions (Finite 26) (Finite 29) PosInf NaN) ''AGG_has_moderate''
       = Some True"
  using decisions_meaning [of "Finite 26" "Finite 29" PosInf NaN]
  by (simp add: table_defs bucket_c2_eq bucket_defs py_gt_def py_ge_def)

text \<open>
  C10. The evaluator has no failing branch: on every four floats, NaN, the infinities,
  zero and negative values among them, it returns the 14 decisions, each with a truth
  value. A NaN reading makes each of the three comparisons on it false. The classifier
  rejects every reading that is not valid, on which the evaluator still answers.
\<close>

theorem evaluator_total:
  "map fst (eval_decisions t s x a) = DECISIONS
   \<and> length (eval_decisions t s x a) = 14
   \<and> (\<forall>k \<in> set DECISIONS. \<exists>b. map_of (eval_decisions t s x a) k = Some b)
   \<and> (t = NaN \<longrightarrow>
        map_of (eval_decisions t s x a) ''VAL_temp_gt0'' = Some False
      \<and> map_of (eval_decisions t s x a) ''T_safe_24_28'' = Some False
      \<and> map_of (eval_decisions t s x a) ''T_moderate_22_24_or_28_30'' = Some False)
   \<and> (s = NaN \<longrightarrow>
        map_of (eval_decisions t s x a) ''VAL_sal_gt0'' = Some False
      \<and> map_of (eval_decisions t s x a) ''S_safe_30_35'' = Some False
      \<and> map_of (eval_decisions t s x a) ''S_moderate_28_30_or_35_37'' = Some False)
   \<and> (x = NaN \<longrightarrow>
        map_of (eval_decisions t s x a) ''VAL_do_gt0'' = Some False
      \<and> map_of (eval_decisions t s x a) ''DO_safe_ge6'' = Some False
      \<and> map_of (eval_decisions t s x a) ''DO_high_lt4'' = Some False)
   \<and> (a = NaN \<longrightarrow>
        map_of (eval_decisions t s x a) ''VAL_nh3_ge0'' = Some False
      \<and> map_of (eval_decisions t s x a) ''NH3_safe_le_0_02'' = Some False
      \<and> map_of (eval_decisions t s x a) ''NH3_high_gt_0_05'' = Some False)
   \<and> (\<not> valid_reading t s x a \<longrightarrow>
        (\<exists>m. classify_marine_health_c2 t s x a = Inl (ValueError m)))"
proof -
  have keys: "map fst (eval_decisions t s x a) = DECISIONS"
    by (rule eval_decisions_keys)
  have len: "length (eval_decisions t s x a) = 14"
    using arg_cong [OF keys, of length] by (simp add: DECISIONS_def)
  have dom: "\<forall>k \<in> set DECISIONS. \<exists>b. map_of (eval_decisions t s x a) k = Some b"
  proof
    fix k assume "k \<in> set DECISIONS"
    then have "k \<in> fst ` set (eval_decisions t s x a)"
      using arg_cong [OF keys, of set] by simp
    then show "\<exists>b. map_of (eval_decisions t s x a) k = Some b"
      by (metis map_of_eq_None_iff not_Some_eq)
  qed
  have nan_t: "t = NaN \<longrightarrow>
        map_of (eval_decisions t s x a) ''VAL_temp_gt0'' = Some False
      \<and> map_of (eval_decisions t s x a) ''T_safe_24_28'' = Some False
      \<and> map_of (eval_decisions t s x a) ''T_moderate_22_24_or_28_30'' = Some False"
    by (simp add: eval_decisions_at py_gt_def bucket_temp_def)
  have nan_s: "s = NaN \<longrightarrow>
        map_of (eval_decisions t s x a) ''VAL_sal_gt0'' = Some False
      \<and> map_of (eval_decisions t s x a) ''S_safe_30_35'' = Some False
      \<and> map_of (eval_decisions t s x a) ''S_moderate_28_30_or_35_37'' = Some False"
    by (simp add: eval_decisions_at py_gt_def bucket_sal_def)
  have nan_x: "x = NaN \<longrightarrow>
        map_of (eval_decisions t s x a) ''VAL_do_gt0'' = Some False
      \<and> map_of (eval_decisions t s x a) ''DO_safe_ge6'' = Some False
      \<and> map_of (eval_decisions t s x a) ''DO_high_lt4'' = Some False"
    by (simp add: eval_decisions_at py_gt_def py_ge_def bucket_do_def)
  have nan_a: "a = NaN \<longrightarrow>
        map_of (eval_decisions t s x a) ''VAL_nh3_ge0'' = Some False
      \<and> map_of (eval_decisions t s x a) ''NH3_safe_le_0_02'' = Some False
      \<and> map_of (eval_decisions t s x a) ''NH3_high_gt_0_05'' = Some False"
    by (simp add: eval_decisions_at py_gt_def py_ge_def bucket_nh3_def)
  have rej: "\<not> valid_reading t s x a \<longrightarrow>
        (\<exists>m. classify_marine_health_c2 t s x a = Inl (ValueError m))"
    using classify_invalid [of t s x a] by (simp add: classify_c2_eq)
  from keys len dom nan_t nan_s nan_x nan_a rej show ?thesis by blast
qed

text \<open>
  All four readings NaN.
\<close>

theorem evaluator_total_witness:
  "map fst (eval_decisions NaN NaN NaN NaN) = DECISIONS
   \<and> map_of (eval_decisions NaN NaN NaN NaN) ''VAL_temp_gt0'' = Some False
   \<and> map_of (eval_decisions NaN NaN NaN NaN) ''S_safe_30_35'' = Some False
   \<and> map_of (eval_decisions NaN NaN NaN NaN) ''DO_high_lt4'' = Some False
   \<and> map_of (eval_decisions NaN NaN NaN NaN) ''NH3_high_gt_0_05'' = Some False
   \<and> (\<exists>m. classify_marine_health_c2 NaN NaN NaN NaN = Inl (ValueError m))"
  using evaluator_total [of NaN NaN NaN NaN]
  by (simp add: valid_reading_def)

section \<open>The two copies of the classifier\<close>

text \<open>
  C9. The classifier of the branch-test file and the classifier of the black-box test
  file agree on every four floats: both raise the same error, or both return the same
  risk and the same factors.
\<close>

theorem copies_equal:
  "classify_marine_health_c2 t s x a = classify_marine_health t s x a"
  by (simp only: classify_c2_eq)

text \<open>
  A safe reading and a NaN temperature.
\<close>

theorem copies_equal_witness:
  "classify_marine_health_c2 (Finite 26) (Finite 32) (Finite 7) (Finite 0)
     = Inr \<lparr>risk = ''low'', factors = []\<rparr>
   \<and> classify_marine_health_c2 NaN (Finite 32) (Finite 7) (Finite 0)
     = Inl (ValueError ''temp_c must be a finite number.'')"
  using copies_equal [of "Finite 26" "Finite 32" "Finite 7" "Finite 0"]
    copies_equal [of NaN "Finite 32" "Finite 7" "Finite 0"]
  by (simp add: classify_marine_health_def bucket_defs py_cmp_finite literal_defs Let_def)

section \<open>The coverage run over the corpus\<close>

lemma corpus_literals_nearest:
  "nearest_double 5764607523034235 60 (5 / 1000)"
  "nearest_double 8646911284551352 58 (3 / 100)"
  "nearest_double 8646911284551352 57 (6 / 100)"
  "nearest_double 4611686018427388 62 (1 / 1000)"
  by (simp_all add: nearest_double_def)

lemmas corpus_literal_defs = lit_0_005_def lit_0_03_def lit_0_06_def lit_0_001_def

lemma map_of_prefix:
  "k \<notin> fst ` set pre \<Longrightarrow> map_of (pre @ (k, tf) # rest) k = Some tf"
  by (induction pre) auto

lemma update_prefix:
  "k \<notin> fst ` set pre \<Longrightarrow> AList.update k w (pre @ (k, tf) # rest) = pre @ (k, w) # rest"
  by (induction pre) auto

lemma cov_add_prefix:
  assumes "distinct (map fst (pre @ cv))" "map fst d = map fst cv"
  shows "cov_add (pre @ cv) d
       = Inr (pre @ map (\<lambda>((k, tf), (k', v)). (k, insert v tf)) (zip cv d))"
  using assms
proof (induction d arbitrary: pre cv)
  case Nil
  then show ?case by simp
next
  case (Cons kv rest)
  obtain k v where kv: "kv = (k, v)" by (cases kv)
  with Cons.prems(2) obtain tf cv' where cv: "cv = (k, tf) # cv'"
    by (cases cv) auto
  from Cons.prems(1) cv have fresh: "k \<notin> fst ` set pre" by auto
  have keys: "distinct (map fst ((pre @ [(k, insert v tf)]) @ cv'))"
    using Cons.prems(1) cv by simp
  have rest: "map fst rest = map fst cv'"
    using Cons.prems(2) kv cv by simp
  have "cov_add ((pre @ [(k, insert v tf)]) @ cv') rest
      = Inr ((pre @ [(k, insert v tf)])
             @ map (\<lambda>((k, tf), (k', v)). (k, insert v tf)) (zip cv' rest))"
    by (rule Cons.IH [OF keys rest])
  moreover have "map_of (pre @ cv) k = Some tf"
    unfolding cv by (rule map_of_prefix [OF fresh])
  moreover have "AList.update k (insert v tf) (pre @ cv) = (pre @ [(k, insert v tf)]) @ cv'"
    unfolding cv by (simp add: update_prefix [OF fresh])
  ultimately show ?case
    unfolding kv by (simp add: cv del: map_of_append)
qed

lemma distinct_DECISIONS: "distinct DECISIONS"
  by (simp add: DECISIONS_def)

lemma cov_add_aligned:
  assumes "map fst cv = DECISIONS" "map fst d = DECISIONS"
  shows "cov_add cv d = Inr (map (\<lambda>((k, tf), (k', v)). (k, insert v tf)) (zip cv d))"
  using cov_add_prefix [of "[]" cv d] assms distinct_DECISIONS by simp

lemma nh3_lits:
  "bucket_nh3 (Finite lit_0_005) = ''safe''"
  "bucket_nh3 (Finite lit_0_03) = ''moderate''"
  "bucket_nh3 (Finite lit_0_06) = ''high''"
  "bucket_nh3 (Finite 0) = ''safe''"
  "bucket_nh3 (Finite (- lit_0_001)) = ''safe''"
  by (simp_all add: bucket_nh3_def py_cmp_finite literal_defs corpus_literal_defs)

lemma temp_lits:
  "bucket_temp (Finite 26) = ''safe''"
  "bucket_temp (Finite (45 / 2)) = ''moderate''"
  "bucket_temp (Finite 20) = ''high''"
  "bucket_temp (Finite 0) = ''high''"
  by (simp_all add: bucket_temp_def)

lemma sal_lits:
  "bucket_sal (Finite 32) = ''safe''"
  "bucket_sal (Finite 29) = ''moderate''"
  "bucket_sal (Finite 27) = ''high''"
  "bucket_sal (Finite 0) = ''high''"
  by (simp_all add: bucket_sal_def)

lemma do_lits:
  "bucket_do (Finite 7) = ''safe''"
  "bucket_do (Finite 5) = ''moderate''"
  "bucket_do (Finite 3) = ''high''"
  "bucket_do (Finite 0) = ''high''"
  by (simp_all add: bucket_do_def py_cmp_finite)

lemma val_lits:
  "0 \<le> lit_0_005" "0 \<le> lit_0_03" "0 \<le> lit_0_06"
  "\<not> lit_0_005 < 0" "\<not> lit_0_03 < 0" "\<not> lit_0_06 < 0"
  "0 < lit_0_001" "\<not> lit_0_001 \<le> 0"
  by (simp_all add: corpus_literal_defs)

lemmas corpus_lits = temp_lits sal_lits do_lits nh3_lits val_lits

lemma classify_c2_buckets:
  "classify_marine_health_c2 (Finite t) (Finite s) (Finite x) (Finite a) =
     (if t \<le> 0 \<or> s \<le> 0 \<or> x \<le> 0 \<or> a < 0
      then Inl (ValueError ''Invalid physical ranges.'')
      else Inr \<lparr>risk =
                   (if bucket_temp (Finite t) = ''high'' \<or> bucket_sal (Finite s) = ''high''
                       \<or> bucket_do (Finite x) = ''high'' \<or> bucket_nh3 (Finite a) = ''high''
                    then ''high''
                    else if bucket_temp (Finite t) = ''moderate''
                       \<or> bucket_sal (Finite s) = ''moderate''
                       \<or> bucket_do (Finite x) = ''moderate''
                       \<or> bucket_nh3 (Finite a) = ''moderate''
                    then ''medium'' else ''low''),
                 factors = (if bucket_temp (Finite t) \<noteq> ''safe'' then [''temp''] else [])
                   @ (if bucket_sal (Finite s) \<noteq> ''safe'' then [''salinity''] else [])
                   @ (if bucket_do (Finite x) \<noteq> ''safe'' then [''dissolved_oxygen''] else [])
                   @ (if bucket_nh3 (Finite a) \<noteq> ''safe'' then [''ammonia''] else [])\<rparr>)"
proof (cases "valid_reading (Finite t) (Finite s) (Finite x) (Finite a)")
  case True
  then show ?thesis
    unfolding classify_c2_eq classify_valid [OF True]
    by (auto simp: valid_reading_finite)
next
  case False
  then show ?thesis
    by (auto simp: classify_c2_eq classify_marine_health_def valid_reading_finite)
qed

lemma tests_run:
  "run_tests (map (\<lambda>name. (name, {})) DECISIONS) 0 TESTS
   = Inr ([(''VAL_temp_gt0'', {True}), (''VAL_sal_gt0'', {True}),
           (''VAL_do_gt0'', {True}), (''VAL_nh3_ge0'', {True}),
           (''T_safe_24_28'', {True, False}), (''T_moderate_22_24_or_28_30'', {True, False}),
           (''S_safe_30_35'', {True, False}), (''S_moderate_28_30_or_35_37'', {True, False}),
           (''DO_safe_ge6'', {True, False}), (''DO_high_lt4'', {True, False}),
           (''NH3_safe_le_0_02'', {True, False}), (''NH3_high_gt_0_05'', {True, False}),
           (''AGG_has_high'', {True, False}), (''AGG_has_moderate'', {True, False})], 9)"
  by (simp add: TESTS_def DECISIONS_def cov_add_aligned classify_c2_buckets
      eval_decisions_buckets py_cmp_finite corpus_lits insert_commute Let_def
      del: cov_add.simps)

lemma error_tests_run:
  "run_error_tests
     [(''VAL_temp_gt0'', {True}), (''VAL_sal_gt0'', {True}),
      (''VAL_do_gt0'', {True}), (''VAL_nh3_ge0'', {True}),
      (''T_safe_24_28'', {True, False}), (''T_moderate_22_24_or_28_30'', {True, False}),
      (''S_safe_30_35'', {True, False}), (''S_moderate_28_30_or_35_37'', {True, False}),
      (''DO_safe_ge6'', {True, False}), (''DO_high_lt4'', {True, False}),
      (''NH3_safe_le_0_02'', {True, False}), (''NH3_high_gt_0_05'', {True, False}),
      (''AGG_has_high'', {True, False}), (''AGG_has_moderate'', {True, False})] 9 ERROR_TESTS
   = Inr (map (\<lambda>n. (n, {True, False})) DECISIONS, 13)"
  by (simp add: ERROR_TESTS_def DECISIONS_def cov_add_aligned classify_c2_buckets
      eval_decisions_buckets py_cmp_finite corpus_lits insert_commute Let_def
      del: cov_add.simps)

lemma both_seen_all:
  "both_seen (map (\<lambda>n. (n, {True, False})) DECISIONS) DECISIONS = Inr DECISIONS"
  by (simp add: DECISIONS_def)

lemma main_run:
  "main = Inr \<lparr>passed = 13, total = 13,
                cov = map (\<lambda>n. (n, {True, False})) DECISIONS,
                missing = [],
                verdict = ''[RESULT] C2 achieved for all tracked decisions.''\<rparr>"
proof -
  have "filter (\<lambda>n. n \<notin> set DECISIONS) DECISIONS = []"
    by (simp add: filter_empty_conv)
  moreover have "length TESTS + length ERROR_TESTS = 13"
    by (simp add: TESTS_def ERROR_TESTS_def)
  ultimately show ?thesis
    by (simp add: main_def tests_run error_tests_run both_seen_all)
qed

text \<open>
  Every truth value the coverage table holds at the end of a loop was either there
  before the loop or is the value of that decision on one of the loop's inputs.
\<close>

lemma cov_add_sound:
  assumes "cov_add cv d = Inr cv'" "map_of cv' k = Some tf'" "b \<in> tf'"
  shows "(\<exists>tf. map_of cv k = Some tf \<and> b \<in> tf) \<or> (k, b) \<in> set d"
  using assms
proof (induction d arbitrary: cv)
  case Nil
  then show ?case by simp
next
  case (Cons kv rest)
  obtain k1 v1 where kv: "kv = (k1, v1)" by (cases kv)
  from Cons.prems(1) obtain tf1 where look: "map_of cv k1 = Some tf1"
    and rest: "cov_add (AList.update k1 (insert v1 tf1) cv) rest = Inr cv'"
    by (auto simp: kv split: option.splits)
  from Cons.IH [OF rest Cons.prems(2,3)]
  show ?case
    using look by (auto simp: kv update_conv' split: if_splits)
qed

lemma run_tests_sound:
  assumes "run_tests cv p tests = Inr (cv', p')" "map_of cv' k = Some tf'" "b \<in> tf'"
  shows "(\<exists>tf. map_of cv k = Some tf \<and> b \<in> tf)
       \<or> (\<exists>inp \<in> set (map (\<lambda>(name, inp, expected). inp) tests).
             (k, b) \<in> set (eval_decisions_of inp))"
  using assms
proof (induction cv p tests rule: run_tests.induct)
  case (1 cv p)
  then show ?case by auto
next
  case (2 cv p name t s x a expected rest)
  from "2.prems"(1) obtain out cv1 where
    out: "classify_marine_health_c2 t s x a = Inr out"
    and add: "cov_add cv (eval_decisions t s x a) = Inr cv1"
    and run: "run_tests cv1 (p + (if risk out = expected then 1 else 0)) rest = Inr (cv', p')"
    by (auto simp: Let_def split: sum.splits)
  from "2.IH" [OF out refl refl add run "2.prems"(2,3)]
  show ?case
  proof
    assume "\<exists>tf. map_of cv1 k = Some tf \<and> b \<in> tf"
    then obtain tf where "map_of cv1 k = Some tf" "b \<in> tf" by blast
    from cov_add_sound [OF add this]
    show ?thesis by (auto simp: eval_decisions_of_def)
  next
    assume "\<exists>inp \<in> set (map (\<lambda>(name, inp, expected). inp) rest).
             (k, b) \<in> set (eval_decisions_of inp)"
    then show ?thesis by auto
  qed
qed

lemma run_error_tests_sound:
  assumes "run_error_tests cv p tests = Inr (cv', p')" "map_of cv' k = Some tf'" "b \<in> tf'"
  shows "(\<exists>tf. map_of cv k = Some tf \<and> b \<in> tf)
       \<or> (\<exists>inp \<in> set (map (\<lambda>(name, inp). inp) tests).
             (k, b) \<in> set (eval_decisions_of inp))"
  using assms
proof (induction cv p tests rule: run_error_tests.induct)
  case (1 cv p)
  then show ?case by auto
next
  case (2 cv p name t s x a rest)
  from "2.prems"(1) obtain ok cv1 where
    ok: "(case classify_marine_health_c2 t s x a of
              Inr out \<Rightarrow> Inr False
            | Inl (ValueError m) \<Rightarrow> Inr True
            | Inl (KeyError k) \<Rightarrow> Inl (KeyError k)) = Inr ok"
    and add: "cov_add cv (eval_decisions t s x a) = Inr cv1"
    and run: "run_error_tests cv1 (p + (if ok then 1 else 0)) rest = Inr (cv', p')"
    by (auto simp: Let_def split: sum.splits)
  from "2.IH" [OF ok refl add run "2.prems"(2,3)]
  show ?case
  proof
    assume "\<exists>tf. map_of cv1 k = Some tf \<and> b \<in> tf"
    then obtain tf where "map_of cv1 k = Some tf" "b \<in> tf" by blast
    from cov_add_sound [OF add this]
    show ?thesis by (auto simp: eval_decisions_of_def)
  next
    assume "\<exists>inp \<in> set (map (\<lambda>(name, inp). inp) rest).
             (k, b) \<in> set (eval_decisions_of inp)"
    then show ?thesis by auto
  qed
qed

lemma map_of_const_keys:
  "map_of (map (\<lambda>n. (n, c)) ks) k = (if k \<in> set ks then Some c else None)"
  by (induction ks) auto

lemma eval_decisions_lookup:
  "(k, b) \<in> set (eval_decisions_of inp) \<Longrightarrow> map_of (eval_decisions_of inp) k = Some b"
  by (cases inp)
     (simp add: eval_decisions_of_def eval_decisions_keys distinct_DECISIONS)

lemma corpus_observed:
  assumes "n \<in> set DECISIONS"
  shows "\<exists>inp \<in> set corpus. map_of (eval_decisions_of inp) n = Some b"
proof -
  let ?final = "map (\<lambda>n. (n, {True, False})) DECISIONS"
  have final: "map_of ?final n = Some {True, False}"
    using assms by (simp add: map_of_const_keys)
  have b: "b \<in> {True, False}" by simp
  from run_error_tests_sound [OF error_tests_run final b]
  have "(\<exists>inp \<in> set (map (\<lambda>(name, inp, expected). inp) TESTS).
             (n, b) \<in> set (eval_decisions_of inp))
      \<or> (\<exists>inp \<in> set (map (\<lambda>(name, inp). inp) ERROR_TESTS).
             (n, b) \<in> set (eval_decisions_of inp))"
  proof
    assume "\<exists>tf. map_of [(''VAL_temp_gt0'', {True}), (''VAL_sal_gt0'', {True}),
      (''VAL_do_gt0'', {True}), (''VAL_nh3_ge0'', {True}),
      (''T_safe_24_28'', {True, False}), (''T_moderate_22_24_or_28_30'', {True, False}),
      (''S_safe_30_35'', {True, False}), (''S_moderate_28_30_or_35_37'', {True, False}),
      (''DO_safe_ge6'', {True, False}), (''DO_high_lt4'', {True, False}),
      (''NH3_safe_le_0_02'', {True, False}), (''NH3_high_gt_0_05'', {True, False}),
      (''AGG_has_high'', {True, False}), (''AGG_has_moderate'', {True, False})] n = Some tf
      \<and> b \<in> tf"
    then obtain tf where "map_of [(''VAL_temp_gt0'', {True}), (''VAL_sal_gt0'', {True}),
      (''VAL_do_gt0'', {True}), (''VAL_nh3_ge0'', {True}),
      (''T_safe_24_28'', {True, False}), (''T_moderate_22_24_or_28_30'', {True, False}),
      (''S_safe_30_35'', {True, False}), (''S_moderate_28_30_or_35_37'', {True, False}),
      (''DO_safe_ge6'', {True, False}), (''DO_high_lt4'', {True, False}),
      (''NH3_safe_le_0_02'', {True, False}), (''NH3_high_gt_0_05'', {True, False}),
      (''AGG_has_high'', {True, False}), (''AGG_has_moderate'', {True, False})] n = Some tf"
      "b \<in> tf" by blast
    from run_tests_sound [OF tests_run this]
    show ?thesis by (auto simp: map_of_const_keys split: if_splits)
  next
    assume "\<exists>inp \<in> set (map (\<lambda>(name, inp). inp) ERROR_TESTS).
             (n, b) \<in> set (eval_decisions_of inp)"
    then show ?thesis by blast
  qed
  then have "\<exists>inp \<in> set corpus. (n, b) \<in> set (eval_decisions_of inp)"
    unfolding corpus_def set_append by blast
  then show ?thesis
    using eval_decisions_lookup by blast
qed

text \<open>
  C7. The corpus is the 9 inputs of \<^verbatim>\<open>TESTS\<close> and the 4 of \<^verbatim>\<open>ERROR_TESTS\<close>. Each of
  the 14 decisions is true on at least one corpus input and false on at least one. The
  run of \<^verbatim>\<open>main\<close> ends without an error, all 13 cases pass, no decision is missing,
  and the closing line reports that C2 is achieved for all tracked decisions.
\<close>

theorem corpus_coverage:
  "length TESTS = 9 \<and> length ERROR_TESTS = 4 \<and> length DECISIONS = 14
   \<and> (\<forall>n \<in> set DECISIONS.
        (\<exists>inp \<in> set corpus. map_of (eval_decisions_of inp) n = Some True)
      \<and> (\<exists>inp \<in> set corpus. map_of (eval_decisions_of inp) n = Some False))
   \<and> (\<exists>r. main = Inr r \<and> passed r = 13 \<and> total r = 13 \<and> missing r = []
          \<and> verdict r = ''[RESULT] C2 achieved for all tracked decisions.'')"
proof -
  have "length TESTS = 9 \<and> length ERROR_TESTS = 4 \<and> length DECISIONS = 14"
    by (simp add: TESTS_def ERROR_TESTS_def DECISIONS_def)
  moreover have "\<forall>n \<in> set DECISIONS.
        (\<exists>inp \<in> set corpus. map_of (eval_decisions_of inp) n = Some True)
      \<and> (\<exists>inp \<in> set corpus. map_of (eval_decisions_of inp) n = Some False)"
    using corpus_observed by blast
  moreover have "\<exists>r. main = Inr r \<and> passed r = 13 \<and> total r = 13 \<and> missing r = []
          \<and> verdict r = ''[RESULT] C2 achieved for all tracked decisions.''"
    by (simp add: main_run)
  ultimately show ?thesis by blast
qed

text \<open>
  The decision \<^verbatim>\<open>DO_high_lt4\<close>.
\<close>

theorem corpus_coverage_witness:
  "(\<exists>inp \<in> set corpus. map_of (eval_decisions_of inp) ''DO_high_lt4'' = Some True)
   \<and> (\<exists>inp \<in> set corpus. map_of (eval_decisions_of inp) ''DO_high_lt4'' = Some False)"
proof -
  have "''DO_high_lt4'' \<in> set DECISIONS" by (simp add: DECISIONS_def)
  with corpus_coverage show ?thesis by blast
qed

end
